theory Spec2Isabelle
  imports Main
begin

section \<open>The entity store and the other collaborators\<close>

text \<open>
  Entities are opaque integer handles into the entity-component store; the null
  handle is \<open>kNullEntity\<close>.
\<close>

type_synonym Entity = nat

definition kNullEntity :: Entity where
  "kNullEntity = 0"

text \<open>The components that \<open>DetachableJoint.cc\<close> reads or writes.\<close>

datatype Component =
    Component_Model
  | Component_Link
  | Component_Name string
  | Component_ParentEntity Entity
  | Component_DetachableJoint Entity Entity string

text \<open>
  Modelled from the spec: the entity store (\<open>EntityComponentManager\<close>) is an external
  collaborator whose code is not part of the sources. The spec lists the operations
  consumed: lookup-entity-by-component-filter, create-entity,
  attach-component-to-entity and request-remove-entity. The store keeps the entities
  in creation order, the components attached to them, and the removal requests
  received so far. Each of the three mutating operations changes the record, so an
  unchanged record means that no mutation took place.
\<close>

record ECM =
  entityCount :: nat
  entities :: "Entity list"
  entityComponents :: "(Entity \<times> Component) list"
  toRemoveEntities :: "Entity list"

definition hasComponents :: "ECM \<Rightarrow> Component list \<Rightarrow> Entity \<Rightarrow> bool" where
  "hasComponents ecm cs e = list_all (\<lambda>c. List.member (entityComponents ecm) (e, c)) cs"

text \<open>
  Modelled from the spec: \<open>EntityByComponents\<close> returns the first entity that carries
  all the given components, and the null entity when there is none.
\<close>

definition EntityByComponents :: "ECM \<Rightarrow> Component list \<Rightarrow> Entity" where
  "EntityByComponents ecm cs =
     (case find (hasComponents ecm cs) (entities ecm) of
        None \<Rightarrow> kNullEntity
      | Some e \<Rightarrow> e)"

text \<open>
  Modelled from the spec: \<open>CreateEntity\<close> hands out a fresh, non-null handle (the
  spec takes joint creation as something that cannot fail).
\<close>

definition CreateEntity :: "ECM \<Rightarrow> Entity \<times> ECM" where
  "CreateEntity ecm =
     (let e = Suc (entityCount ecm)
      in (e, ecm\<lparr>entityCount := e, entities := entities ecm @ [e]\<rparr>))"

text \<open>Modelled from the spec: \<open>CreateComponent\<close> attaches a component to an entity.\<close>

definition CreateComponent :: "ECM \<Rightarrow> Entity \<Rightarrow> Component \<Rightarrow> ECM" where
  "CreateComponent ecm e c = ecm\<lparr>entityComponents := entityComponents ecm @ [(e, c)]\<rparr>"

text \<open>
  Modelled from the spec: \<open>RequestRemoveEntity\<close> records a removal request; the
  removal itself is the store's business.
\<close>

definition RequestRemoveEntity :: "ECM \<Rightarrow> Entity \<Rightarrow> ECM" where
  "RequestRemoveEntity ecm e = ecm\<lparr>toRemoveEntities := toRemoveEntities ecm @ [e]\<rparr>"

text \<open>
  Modelled from the spec: the \<open>Model\<close> wrapper of \<open>gz/sim/Model.hh\<close> is not part of the
  sources. A model entity is valid when it carries the model component; its name is
  its name component (empty when absent); a link of the model is found by
  link-type, parent and name.
\<close>

definition Model_Valid :: "Entity \<Rightarrow> ECM \<Rightarrow> bool" where
  "Model_Valid m ecm = List.member (entityComponents ecm) (m, Component_Model)"

fun nameOf :: "(Entity \<times> Component) list \<Rightarrow> Entity \<Rightarrow> string" where
  "nameOf [] m = []"
| "nameOf ((e, Component_Name n) # rest) m = (if e = m then n else nameOf rest m)"
| "nameOf (_ # rest) m = nameOf rest m"

definition Model_Name :: "Entity \<Rightarrow> ECM \<Rightarrow> string" where
  "Model_Name m ecm = nameOf (entityComponents ecm) m"

definition Model_LinkByName :: "Entity \<Rightarrow> ECM \<Rightarrow> string \<Rightarrow> Entity" where
  "Model_LinkByName m ecm name =
     EntityByComponents ecm [Component_ParentEntity m, Component_Name name, Component_Link]"

text \<open>
  The declarative configuration element: each recognised option is present with a
  value or absent.
\<close>

record Element =
  parent_link :: "string option"
  child_model :: "string option"
  child_link :: "string option"
  topic_elem :: "string option"
  suppress_child_warning :: "bool option"

text \<open>Console output: a severity (\<open>gzerr\<close>, \<open>gzwarn\<close>, \<open>gzmsg\<close>, \<open>gzdbg\<close>) and the text.\<close>

datatype Severity = Err | Warn | Msg | Dbg

type_synonym Log = "(Severity \<times> string) list"

definition endl :: string where
  "endl = [CHR 0x0A]"

definition apos :: string where
  "apos = [CHR 0x27]"

text \<open>Decimal output of an entity handle, as \<open>operator<<\<close> prints it.\<close>

definition digit :: "nat \<Rightarrow> char" where
  "digit d = char_of (48 + d)"

function show_nat :: "nat \<Rightarrow> string" where
  "show_nat n = (if n < 10 then [digit n] else show_nat (n div 10) @ [digit (n mod 10)])"
  by pat_completeness auto
termination
  by (relation "measure id") auto

section \<open>The detachable joint system\<close>

text \<open>
  The members of the system. \<open>model\<close> is the entity wrapped by the \<open>Model\<close> member and
  \<open>node\<close> the topics the transport node is subscribed to.
\<close>

record DetachableJoint =
  model :: Entity
  childModelName :: string
  childLinkName :: string
  topic :: string
  suppressChildWarning :: bool
  parentLinkEntity :: Entity
  childLinkEntity :: Entity
  detachableJointEntity :: Entity
  detachRequested :: bool
  validConfig :: bool
  initialized :: bool
  node :: "string list"

text \<open>
  Modelled from the spec: the member declarations of \<open>DetachableJoint.hh\<close>, with their
  default values, are not part of the sources. By the spec \<open>validConfig\<close> is set at
  configure time, \<open>initialized\<close> becomes true when the joint is created, the joint
  handle is null until then, the warning is not suppressed by default, and no
  detach is pending at the start.
\<close>

definition initial_state :: DetachableJoint where
  "initial_state =
     \<lparr> model = kNullEntity, childModelName = [], childLinkName = [], topic = [],
       suppressChildWarning = False, parentLinkEntity = kNullEntity,
       childLinkEntity = kNullEntity, detachableJointEntity = kNullEntity,
       detachRequested = False, validConfig = False, initialized = False,
       node = [] \<rparr>"

text \<open>
  \<open>DetachableJoint::Configure\<close>. The topic validation \<open>validTopic\<close> belongs to the
  transport collaborator and is a parameter. The store is only queried. The result
  is the new state and the console output.
\<close>

definition Configure ::
  "(string list \<Rightarrow> string) \<Rightarrow> DetachableJoint \<Rightarrow> Entity \<Rightarrow> Element \<Rightarrow> ECM
     \<Rightarrow> DetachableJoint \<times> Log" where
  "Configure validTopic this entity sdf ecm =
    (let s0 = this\<lparr>model := entity\<rparr> in
     if \<not> Model_Valid (model s0) ecm then
       (s0, [(Err, ''DetachableJoint should be attached to a model entity. ''
                    @ ''Failed to initialize.'' @ endl)])
     else
       (case parent_link sdf of
          None \<Rightarrow>
            (s0, [(Err, apos @ ''parent_link'' @ apos @ '' is a required parameter for DetachableJoint. ''
                        @ ''Failed to initialize.'' @ endl)])
        | Some parentLinkName \<Rightarrow>
            (let s1 = s0\<lparr>parentLinkEntity := Model_LinkByName (model s0) ecm parentLinkName\<rparr> in
             if kNullEntity = parentLinkEntity s1 then
               (s1, [(Err, ''Link with name '' @ parentLinkName
                           @ '' not found in model '' @ Model_Name (model s1) ecm
                           @ ''. Make sure the parameter '' @ apos @ ''parent_link'' @ apos @ '' has the ''
                           @ ''correct value. Failed to initialize.'' @ endl)])
             else
               (case child_model sdf of
                  None \<Rightarrow>
                    (s1, [(Err, apos @ ''child_model'' @ apos @ '' is a required parameter for DetachableJoint.''
                                @ ''Failed to initialize.'' @ endl)])
                | Some cm \<Rightarrow>
                    (let s2 = s1\<lparr>childModelName := cm\<rparr> in
                     case child_link sdf of
                       None \<Rightarrow>
                         (s2, [(Err, apos @ ''child_link'' @ apos @ '' is a required parameter for DetachableJoint.''
                                     @ ''Failed to initialize.'' @ endl)])
                     | Some cl \<Rightarrow>
                         (let s3 = s2\<lparr>childLinkName := cl\<rparr>;
                              topics = (case topic_elem sdf of None \<Rightarrow> [] | Some t \<Rightarrow> [t])
                                       @ [''/model/'' @ Model_Name (model s3) ecm
                                          @ ''/detachable_joint/detach''];
                              s4 = s3\<lparr>topic := validTopic topics\<rparr>;
                              s5 = s4\<lparr>suppressChildWarning :=
                                        (case suppress_child_warning sdf of
                                           None \<Rightarrow> suppressChildWarning s4
                                         | Some b \<Rightarrow> b)\<rparr>
                          in (s5\<lparr>validConfig := True\<rparr>, [])))))))"

text \<open>
  The lookup of the child model at the start of the discovery block of
  \<open>DetachableJoint::PreUpdate\<close>: the owning model itself for the name \<open>__model__\<close>,
  a lookup by model type and name otherwise.
\<close>

definition childModelEntity :: "DetachableJoint \<Rightarrow> ECM \<Rightarrow> Entity" where
  "childModelEntity this ecm =
     (if ''__model__'' = childModelName this then model this
      else EntityByComponents ecm [Component_Model, Component_Name (childModelName this)])"

text \<open>The lookup of the child link inside the child model.\<close>

definition findChildLink :: "DetachableJoint \<Rightarrow> ECM \<Rightarrow> Entity \<Rightarrow> Entity" where
  "findChildLink this ecm modelEntity =
     EntityByComponents ecm
       [Component_Link, Component_ParentEntity modelEntity, Component_Name (childLinkName this)]"

text \<open>
  The body of the block guarded by \<open>validConfig && !initialized\<close>: discovery of the
  child model and link and, when both are found, creation of the joint entity.
\<close>

definition discover :: "DetachableJoint \<Rightarrow> ECM \<Rightarrow> DetachableJoint \<times> ECM \<times> Log" where
  "discover this ecm =
    (let modelEntity = childModelEntity this ecm in
     if kNullEntity \<noteq> modelEntity then
       (let s1 = this\<lparr>childLinkEntity := findChildLink this ecm modelEntity\<rparr> in
        if kNullEntity \<noteq> childLinkEntity s1 then
          (let (e, ecm1) = CreateEntity ecm;
               s2 = s1\<lparr>detachableJointEntity := e\<rparr>;
               ecm2 = CreateComponent ecm1 (detachableJointEntity s2)
                        (Component_DetachableJoint (parentLinkEntity s2) (childLinkEntity s2)
                           ''fixed'');
               s3 = s2\<lparr>node := node s2 @ [topic s2]\<rparr>
           in (s3\<lparr>initialized := True\<rparr>, ecm2,
               [(Msg, ''DetachableJoint subscribing to messages on ''
                      @ ''['' @ topic s3 @ '']'' @ endl)]))
        else
          (s1, ecm, [(Warn, ''Child Link '' @ childLinkName s1 @ '' could not be found.'' @ endl)]))
     else if \<not> suppressChildWarning this then
       (this, ecm,
        [(Warn, ''Child Model '' @ childModelName this @ '' could not be found.'' @ endl)])
     else (this, ecm, []))"

text \<open>
  \<open>DetachableJoint::PreUpdate\<close>, one simulation step: the new state, the new store
  and the console output.
\<close>

definition PreUpdate :: "DetachableJoint \<Rightarrow> ECM \<Rightarrow> DetachableJoint \<times> ECM \<times> Log" where
  "PreUpdate this ecm =
    (let (s1, ecm1, log1) =
           (if validConfig this \<and> \<not> initialized this then discover this ecm
            else (this, ecm, []))
     in if initialized s1 then
          if detachRequested s1 \<and> kNullEntity \<noteq> detachableJointEntity s1 then
            (s1\<lparr>detachableJointEntity := kNullEntity, detachRequested := False\<rparr>,
             RequestRemoveEntity ecm1 (detachableJointEntity s1),
             log1 @ [(Dbg, ''Removing entity: '' @ show_nat (detachableJointEntity s1) @ endl)])
          else (s1, ecm1, log1)
        else (s1, ecm1, log1))"

text \<open>\<open>DetachableJoint::OnDetachRequest\<close>; the message is ignored.\<close>

definition OnDetachRequest :: "DetachableJoint \<Rightarrow> DetachableJoint" where
  "OnDetachRequest this = this\<lparr>detachRequested := True\<rparr>"

section \<open>Runs of the system\<close>

text \<open>
  The store belongs to the simulation, which may change it between two steps: every
  step comes with the store as it is at that tick.
\<close>

fun ticks :: "DetachableJoint \<Rightarrow> ECM list \<Rightarrow> DetachableJoint" where
  "ticks s [] = s"
| "ticks s (ecm # ecms) = ticks (fst (PreUpdate s ecm)) ecms"

datatype Op = OpConfigure Entity Element ECM | OpStep ECM | OpDetach

fun isConfigure :: "Op \<Rightarrow> bool" where
  "isConfigure (OpConfigure _ _ _) = True"
| "isConfigure _ = False"

fun apply_op :: "(string list \<Rightarrow> string) \<Rightarrow> DetachableJoint \<Rightarrow> Op \<Rightarrow> DetachableJoint" where
  "apply_op vt s (OpConfigure entity sdf ecm) = fst (Configure vt s entity sdf ecm)"
| "apply_op vt s (OpStep ecm) = fst (PreUpdate s ecm)"
| "apply_op vt s OpDetach = OnDetachRequest s"

fun run :: "(string list \<Rightarrow> string) \<Rightarrow> DetachableJoint \<Rightarrow> Op list \<Rightarrow> DetachableJoint" where
  "run vt s [] = s"
| "run vt s (x # xs) = run vt (apply_op vt s x) xs"

text \<open>
  A step processes a detach when it requests a removal from the store, which shows
  as a new entry among the removal requests.
\<close>

definition detachProcessed :: "DetachableJoint \<Rightarrow> ECM \<Rightarrow> bool" where
  "detachProcessed s ecm = (toRemoveEntities (fst (snd (PreUpdate s ecm))) \<noteq> toRemoveEntities ecm)"

fun processes :: "DetachableJoint \<Rightarrow> Op \<Rightarrow> bool" where
  "processes s (OpStep ecm) = detachProcessed s ecm"
| "processes s _ = False"

text \<open>Whether some step of the run from \<open>s\<close> has processed a detach.\<close>

fun detachDone :: "(string list \<Rightarrow> string) \<Rightarrow> DetachableJoint \<Rightarrow> Op list \<Rightarrow> bool" where
  "detachDone vt s [] = False"
| "detachDone vt s (x # xs) = (processes s x \<or> detachDone vt (apply_op vt s x) xs)"

text \<open>Both the child model and the child link resolve in the given store.\<close>

definition resolves :: "DetachableJoint \<Rightarrow> ECM \<Rightarrow> bool" where
  "resolves s ecm =
     (kNullEntity \<noteq> childModelEntity s ecm
      \<and> kNullEntity \<noteq> findChildLink s ecm (childModelEntity s ecm))"

text \<open>The guard of the discovery block.\<close>

definition discoveryRuns :: "DetachableJoint \<Rightarrow> bool" where
  "discoveryRuns s = (validConfig s \<and> \<not> initialized s)"

section \<open>The event channels\<close>

text \<open>
  The event header declares each channel as an alias of \<open>EventT<void(args), Tag>\<close>,
  an instance of a class template with two parameters: the signature of the
  callbacks and a tag type. Two instances are the same type exactly when both
  parameters agree, so a channel is modelled by the pair of its parameters.
\<close>

datatype ArgType =
    Arg_bool
  | Arg_Entity
  | Arg_sdf_ElementPtr
  | Arg_unsigned_int
  | Arg_std_string
  | Arg_const_EntityComponentManager_ref
  | Arg_const_UpdateInfo_ref

datatype EventTag =
    PauseTag
  | StopTag
  | LoadPluginsTag
  | RenderTag
  | EnableSensorsTag
  | RemoveFromECMTag
  | AddToECMTag
  | UpdateGUIECMTag

datatype EventT = EventT (signature: "ArgType list") (tag: EventTag)

definition Pause :: EventT where
  "Pause = EventT [Arg_bool] PauseTag"

definition Stop :: EventT where
  "Stop = EventT [] StopTag"

definition LoadPlugins :: EventT where
  "LoadPlugins = EventT [Arg_Entity, Arg_sdf_ElementPtr] LoadPluginsTag"

definition Render :: EventT where
  "Render = EventT [] RenderTag"

definition EnableSensors :: EventT where
  "EnableSensors = EventT [Arg_bool] EnableSensorsTag"

definition RemoveFromECM :: EventT where
  "RemoveFromECM = EventT [Arg_unsigned_int] RemoveFromECMTag"

definition AddToECM :: EventT where
  "AddToECM = EventT [Arg_unsigned_int, Arg_std_string, Arg_unsigned_int] AddToECMTag"

definition UpdateGUIECM :: EventT where
  "UpdateGUIECM =
     EventT [Arg_const_EntityComponentManager_ref, Arg_const_UpdateInfo_ref] UpdateGUIECMTag"

text \<open>The aliases of namespace \<open>events\<close>, in the order of their declaration.\<close>

definition events :: "EventT list" where
  "events =
     [Pause, Stop, LoadPlugins, Render, EnableSensors, RemoveFromECM, AddToECM, UpdateGUIECM]"

section \<open>Example inputs\<close>

text \<open>A stand-in for the topic validation: the first candidate.\<close>

definition firstTopic :: "string list \<Rightarrow> string" where
  "firstTopic ts = (case ts of [] \<Rightarrow> [] | t # _ \<Rightarrow> t)"

text \<open>A store with the owning model \<open>robot\<close> and its link \<open>base\<close> only.\<close>

definition store_parent_only :: ECM where
  "store_parent_only =
     \<lparr> entityCount = 2, entities = [1, 2],
       entityComponents =
         [(1, Component_Model), (1, Component_Name ''robot''),
          (2, Component_Link), (2, Component_ParentEntity 1), (2, Component_Name ''base'')],
       toRemoveEntities = [] \<rparr>"

text \<open>The same store once the model \<open>box\<close> with its link \<open>handle\<close> has been spawned.\<close>

definition store_with_child :: ECM where
  "store_with_child =
     \<lparr> entityCount = 4, entities = [1, 2, 3, 4],
       entityComponents =
         [(1, Component_Model), (1, Component_Name ''robot''),
          (2, Component_Link), (2, Component_ParentEntity 1), (2, Component_Name ''base''),
          (3, Component_Model), (3, Component_Name ''box''),
          (4, Component_Link), (4, Component_ParentEntity 3), (4, Component_Name ''handle'')],
       toRemoveEntities = [] \<rparr>"

definition example_sdf :: Element where
  "example_sdf =
     \<lparr> parent_link = Some ''base'', child_model = Some ''box'', child_link = Some ''handle'',
       topic_elem = None, suppress_child_warning = None \<rparr>"

definition configured_state :: DetachableJoint where
  "configured_state = fst (Configure firstTopic initial_state 1 example_sdf store_parent_only)"

definition attached_state :: DetachableJoint where
  "attached_state = fst (PreUpdate configured_state store_with_child)"

section \<open>Single steps\<close>

text \<open>What one call of \<open>PreUpdate\<close> does in each of the states it can meet.\<close>

lemma PreUpdate_inert:
  "\<not> validConfig s \<Longrightarrow> \<not> initialized s \<Longrightarrow> PreUpdate s ecm = (s, ecm, [])"
  by (simp add: PreUpdate_def)

lemma PreUpdate_idle:
  "initialized s \<Longrightarrow> \<not> detachRequested s \<Longrightarrow> PreUpdate s ecm = (s, ecm, [])"
  by (simp add: PreUpdate_def)

lemma PreUpdate_spent:
  "initialized s \<Longrightarrow> detachableJointEntity s = kNullEntity \<Longrightarrow> PreUpdate s ecm = (s, ecm, [])"
  by (simp add: PreUpdate_def)

lemma PreUpdate_detach:
  "initialized s \<Longrightarrow> detachRequested s \<Longrightarrow> detachableJointEntity s \<noteq> kNullEntity \<Longrightarrow>
   PreUpdate s ecm =
     (s\<lparr>detachableJointEntity := kNullEntity, detachRequested := False\<rparr>,
      RequestRemoveEntity ecm (detachableJointEntity s),
      [(Dbg, ''Removing entity: '' @ show_nat (detachableJointEntity s) @ endl)])"
  by (auto simp add: PreUpdate_def)

lemma CreateEntity_not_null: "fst (CreateEntity ecm) \<noteq> kNullEntity"
  by (simp add: CreateEntity_def kNullEntity_def Let_def)

lemma discover_fails:
  "\<not> resolves s ecm \<Longrightarrow>
   fst (snd (discover s ecm)) = ecm \<and>
   initialized (fst (discover s ecm)) = initialized s \<and>
   validConfig (fst (discover s ecm)) = validConfig s \<and>
   detachRequested (fst (discover s ecm)) = detachRequested s \<and>
   detachableJointEntity (fst (discover s ecm)) = detachableJointEntity s \<and>
   model (fst (discover s ecm)) = model s \<and>
   childModelName (fst (discover s ecm)) = childModelName s \<and>
   childLinkName (fst (discover s ecm)) = childLinkName s"
  by (auto simp add: discover_def resolves_def Let_def)

lemma discover_succeeds:
  "resolves s ecm \<Longrightarrow>
   initialized (fst (discover s ecm)) \<and>
   validConfig (fst (discover s ecm)) = validConfig s \<and>
   detachRequested (fst (discover s ecm)) = detachRequested s \<and>
   detachableJointEntity (fst (discover s ecm)) = fst (CreateEntity ecm) \<and>
   toRemoveEntities (fst (snd (discover s ecm))) = toRemoveEntities ecm"
  by (auto simp add: discover_def resolves_def Let_def CreateEntity_def CreateComponent_def split: prod.splits)

lemma discover_toRemoveEntities:
  "toRemoveEntities (fst (snd (discover s ecm))) = toRemoveEntities ecm"
  by (auto simp add: discover_def Let_def CreateEntity_def CreateComponent_def split: prod.splits)

lemma PreUpdate_found:
  assumes "validConfig s" "\<not> initialized s" "resolves s ecm"
  shows "initialized (fst (PreUpdate s ecm))"
    and "validConfig (fst (PreUpdate s ecm))"
    and "detachableJointEntity (fst (PreUpdate s ecm)) =
           (if detachRequested s then kNullEntity else fst (CreateEntity ecm))"
    and "detachRequested (fst (PreUpdate s ecm)) = False"
    and "detachProcessed s ecm = detachRequested s"
  using assms discover_succeeds [OF assms(3)] CreateEntity_not_null [of ecm]
  by (auto simp add: PreUpdate_def detachProcessed_def RequestRemoveEntity_def split: prod.splits)

lemma PreUpdate_not_found:
  assumes "validConfig s" "\<not> initialized s" "\<not> resolves s ecm"
  shows "PreUpdate s ecm = discover s ecm"
  using assms discover_fails [OF assms(3)]
  by (auto simp add: PreUpdate_def split: prod.splits)

lemma PreUpdate_frame:
  "model (fst (PreUpdate s ecm)) = model s"
  "childModelName (fst (PreUpdate s ecm)) = childModelName s"
  "childLinkName (fst (PreUpdate s ecm)) = childLinkName s"
  "validConfig (fst (PreUpdate s ecm)) = validConfig s"
  "parentLinkEntity (fst (PreUpdate s ecm)) = parentLinkEntity s"
  "suppressChildWarning (fst (PreUpdate s ecm)) = suppressChildWarning s"
  by (auto simp add: PreUpdate_def discover_def Let_def split: prod.splits)

lemma PreUpdate_initialized_mono:
  "initialized s \<Longrightarrow> initialized (fst (PreUpdate s ecm))"
  by (auto simp add: PreUpdate_def split: prod.splits)

lemma PreUpdate_initialized_iff:
  assumes "validConfig s" "\<not> initialized s"
  shows "initialized (fst (PreUpdate s ecm)) = resolves s ecm"
proof (cases "resolves s ecm")
  case True
  with PreUpdate_found(1) [OF assms] show ?thesis by simp
next
  case False
  with PreUpdate_not_found [OF assms False] discover_fails [OF False] assms
  show ?thesis by simp
qed

lemma resolves_frame:
  "resolves (fst (PreUpdate s ecm)) e = resolves s e"
  by (simp add: resolves_def childModelEntity_def findChildLink_def PreUpdate_frame)

lemma Configure_frame:
  "initialized (fst (Configure vt s entity sdf ecm)) = initialized s"
  "detachableJointEntity (fst (Configure vt s entity sdf ecm)) = detachableJointEntity s"
  "detachRequested (fst (Configure vt s entity sdf ecm)) = detachRequested s"
  by (simp_all add: Configure_def Let_def split: option.splits)

lemma Configure_missing:
  assumes "parent_link sdf = None \<or> child_model sdf = None \<or> child_link sdf = None"
  shows "validConfig (fst (Configure vt s entity sdf ecm)) = validConfig s"
  using assms by (auto simp add: Configure_def Let_def split: option.splits)

lemma detachProcessed_spent:
  assumes "detachProcessed s ecm"
  shows "initialized (fst (PreUpdate s ecm))
       \<and> detachableJointEntity (fst (PreUpdate s ecm)) = kNullEntity"
proof (cases "validConfig s \<and> \<not> initialized s")
  case True
  with assms discover_toRemoveEntities [of s ecm] show ?thesis
    by (auto simp add: detachProcessed_def PreUpdate_def split: prod.splits if_splits)
next
  case False
  with assms show ?thesis
    by (auto simp add: detachProcessed_def PreUpdate_def split: if_splits)
qed

section \<open>Runs\<close>

lemma ticks_initialized_mono:
  "initialized s \<Longrightarrow> initialized (ticks s ecms)"
  by (induction ecms arbitrary: s) (simp_all add: PreUpdate_initialized_mono)

lemma ticks_validConfig:
  "validConfig (ticks s ecms) = validConfig s"
  by (induction ecms arbitrary: s) (simp_all add: PreUpdate_frame)

lemma ticks_initialized_iff:
  "validConfig s \<Longrightarrow> \<not> initialized s \<Longrightarrow>
   initialized (ticks s ecms) = (\<exists>e \<in> set ecms. resolves s e)"
proof (induction ecms arbitrary: s)
  case Nil
  then show ?case by simp
next
  case (Cons e es)
  show ?case
  proof (cases "resolves s e")
    case True
    with Cons.prems have "initialized (fst (PreUpdate s e))"
      by (simp add: PreUpdate_initialized_iff)
    then have "initialized (ticks (fst (PreUpdate s e)) es)"
      by (rule ticks_initialized_mono)
    with True show ?thesis by simp
  next
    case False
    with Cons.prems have ni: "\<not> initialized (fst (PreUpdate s e))"
      by (simp add: PreUpdate_initialized_iff)
    from Cons.prems have v: "validConfig (fst (PreUpdate s e))"
      by (simp add: PreUpdate_frame)
    from Cons.IH [OF v ni] False show ?thesis
      by (simp add: resolves_frame)
  qed
qed

lemma run_inert:
  "\<not> validConfig s \<Longrightarrow> \<not> initialized s \<Longrightarrow> \<not> list_ex isConfigure xs \<Longrightarrow>
   \<not> validConfig (run vt s xs) \<and> \<not> initialized (run vt s xs)
   \<and> parentLinkEntity (run vt s xs) = parentLinkEntity s"
proof (induction xs arbitrary: s)
  case Nil
  then show ?case by simp
next
  case (Cons x xs)
  then show ?case
    by (cases x) (simp_all add: PreUpdate_inert OnDetachRequest_def)
qed

lemma run_spent:
  "initialized s \<Longrightarrow> detachableJointEntity s = kNullEntity \<Longrightarrow>
   initialized (run vt s xs) \<and> detachableJointEntity (run vt s xs) = kNullEntity"
proof (induction xs arbitrary: s)
  case Nil
  then show ?case by simp
next
  case (Cons x xs)
  then show ?case
    by (cases x) (simp_all add: PreUpdate_spent OnDetachRequest_def Configure_frame)
qed

lemma step_invariant:
  assumes "(detachableJointEntity s \<noteq> kNullEntity) = (initialized s \<and> \<not> p)"
    and "p \<longrightarrow> initialized s"
  shows "(detachableJointEntity (fst (PreUpdate s ecm)) \<noteq> kNullEntity) =
           (initialized (fst (PreUpdate s ecm)) \<and> \<not> (p \<or> detachProcessed s ecm))
         \<and> (p \<or> detachProcessed s ecm \<longrightarrow> initialized (fst (PreUpdate s ecm)))"
proof (cases "initialized s")
  case True
  show ?thesis
  proof (cases "detachRequested s \<and> detachableJointEntity s \<noteq> kNullEntity")
    case True
    with \<open>initialized s\<close> show ?thesis
      by (simp add: PreUpdate_detach detachProcessed_def RequestRemoveEntity_def)
  next
    case False
    with \<open>initialized s\<close> have "PreUpdate s ecm = (s, ecm, [])"
      by (auto simp add: PreUpdate_idle PreUpdate_spent)
    with assms \<open>initialized s\<close> show ?thesis
      by (simp add: detachProcessed_def)
  qed
next
  case False
  with assms have np: "\<not> p" and nul: "detachableJointEntity s = kNullEntity"
    by auto
  show ?thesis
  proof (cases "validConfig s")
    case v: True
    show ?thesis
    proof (cases "resolves s ecm")
      case True
      from PreUpdate_found [OF v False True] np CreateEntity_not_null [of ecm]
      show ?thesis by simp
    next
      case r: False
      have "PreUpdate s ecm = discover s ecm"
        by (rule PreUpdate_not_found [OF v False r])
      with discover_fails [OF r] False np nul show ?thesis
        by (simp add: detachProcessed_def)
    qed
  next
    case v: False
    with False np nul show ?thesis
      by (simp add: PreUpdate_inert detachProcessed_def)
  qed
qed

lemma apply_op_invariant:
  assumes "(detachableJointEntity s \<noteq> kNullEntity) = (initialized s \<and> \<not> p)"
    and "p \<longrightarrow> initialized s"
  shows "(detachableJointEntity (apply_op vt s x) \<noteq> kNullEntity) =
           (initialized (apply_op vt s x) \<and> \<not> (p \<or> processes s x))
         \<and> (p \<or> processes s x \<longrightarrow> initialized (apply_op vt s x))"
proof (cases x)
  case (OpConfigure entity sdf ecm)
  with assms show ?thesis by (simp add: Configure_frame)
next
  case (OpStep ecm)
  with step_invariant [OF assms, of ecm] show ?thesis by simp
next
  case OpDetach
  with assms show ?thesis by (simp add: OnDetachRequest_def)
qed

lemma run_invariant:
  "(detachableJointEntity s \<noteq> kNullEntity) = (initialized s \<and> \<not> p) \<Longrightarrow>
   (p \<longrightarrow> initialized s) \<Longrightarrow>
   (detachableJointEntity (run vt s xs) \<noteq> kNullEntity) =
     (initialized (run vt s xs) \<and> \<not> (p \<or> detachDone vt s xs))"
proof (induction xs arbitrary: s p)
  case Nil
  then show ?case by simp
next
  case (Cons x xs)
  from apply_op_invariant [OF Cons.prems, of vt x]
  have "(detachableJointEntity (run vt (apply_op vt s x) xs) \<noteq> kNullEntity) =
     (initialized (run vt (apply_op vt s x) xs) \<and>
      \<not> ((p \<or> processes s x) \<or> detachDone vt (apply_op vt s x) xs))"
    by (intro Cons.IH) simp_all
  then show ?case by simp
qed

section \<open>The properties of the specification\<close>

subsection \<open>C1\<close>

text \<open>
  C1, detach correctness. In a state with \<open>initialized\<close> true and a non-null joint
  entity, a detach command followed by one step requests the removal of exactly
  that joint entity from the store (and changes nothing else in the store), sets
  the joint entity to null and clears \<open>detachRequested\<close>.
\<close>

theorem detach_correctness:
  assumes "initialized s" and "detachableJointEntity s \<noteq> kNullEntity"
  shows "fst (snd (PreUpdate (OnDetachRequest s) ecm)) =
           RequestRemoveEntity ecm (detachableJointEntity s)
       \<and> toRemoveEntities (fst (snd (PreUpdate (OnDetachRequest s) ecm))) =
           toRemoveEntities ecm @ [detachableJointEntity s]
       \<and> detachableJointEntity (fst (PreUpdate (OnDetachRequest s) ecm)) = kNullEntity
       \<and> detachRequested (fst (PreUpdate (OnDetachRequest s) ecm)) = False"
proof -
  let ?t = "OnDetachRequest s"
  from assms have "initialized ?t" and "detachRequested ?t"
    and "detachableJointEntity ?t \<noteq> kNullEntity"
    and "detachableJointEntity ?t = detachableJointEntity s"
    by (simp_all add: OnDetachRequest_def)
  then show ?thesis
    by (simp add: PreUpdate_detach RequestRemoveEntity_def)
qed

theorem detach_correctness_witness:
  "initialized attached_state \<and> detachableJointEntity attached_state \<noteq> kNullEntity
   \<and> detachableJointEntity attached_state = 5
   \<and> fst (snd (PreUpdate (OnDetachRequest attached_state) store_with_child)) =
         RequestRemoveEntity store_with_child 5
   \<and> toRemoveEntities (fst (snd (PreUpdate (OnDetachRequest attached_state) store_with_child))) =
         toRemoveEntities store_with_child @ [5]
   \<and> detachableJointEntity (fst (PreUpdate (OnDetachRequest attached_state) store_with_child)) =
         kNullEntity
   \<and> detachRequested (fst (PreUpdate (OnDetachRequest attached_state) store_with_child)) = False"
proof -
  have h1: "initialized attached_state" by code_simp
  have h2: "detachableJointEntity attached_state \<noteq> kNullEntity" by code_simp
  have v: "detachableJointEntity attached_state = 5" by code_simp
  note t = detach_correctness [OF h1 h2, of store_with_child, unfolded v]
  from t h1 h2 v show ?thesis by blast
qed

subsection \<open>C2\<close>

text \<open>
  C2, configuration completeness. When \<open>parent_link\<close>, \<open>child_model\<close> or \<open>child_link\<close>
  is missing, \<open>Configure\<close> leaves \<open>validConfig\<close> false, and after any sequence of
  steps and detach commands a step returns the state and the store unchanged and
  prints nothing: no entity is created, no component is attached, no removal is
  requested.
\<close>

theorem configuration_completeness:
  assumes "parent_link sdf = None \<or> child_model sdf = None \<or> child_link sdf = None"
    and "\<not> list_ex isConfigure xs"
  shows "\<not> validConfig (fst (Configure vt initial_state entity sdf ecm0))
       \<and> PreUpdate (run vt (fst (Configure vt initial_state entity sdf ecm0)) xs) ecm =
           (run vt (fst (Configure vt initial_state entity sdf ecm0)) xs, ecm, [])"
proof -
  let ?c = "fst (Configure vt initial_state entity sdf ecm0)"
  have v: "\<not> validConfig ?c"
    using Configure_missing [OF assms(1)] by (simp add: initial_state_def)
  have i: "\<not> initialized ?c"
    by (simp add: Configure_frame initial_state_def)
  from run_inert [OF v i assms(2)] v show ?thesis
    by (simp add: PreUpdate_inert)
qed

theorem configuration_completeness_witness:
  "(parent_link (example_sdf\<lparr>child_link := None\<rparr>) = None
      \<or> child_model (example_sdf\<lparr>child_link := None\<rparr>) = None
      \<or> child_link (example_sdf\<lparr>child_link := None\<rparr>) = None)
   \<and> \<not> list_ex isConfigure [OpStep store_with_child, OpDetach, OpStep store_with_child]
   \<and> \<not> validConfig (fst (Configure firstTopic initial_state 1
                             (example_sdf\<lparr>child_link := None\<rparr>) store_parent_only))
   \<and> PreUpdate (run firstTopic
                   (fst (Configure firstTopic initial_state 1
                           (example_sdf\<lparr>child_link := None\<rparr>) store_parent_only))
                   [OpStep store_with_child, OpDetach, OpStep store_with_child])
                store_with_child =
       (run firstTopic
          (fst (Configure firstTopic initial_state 1
                  (example_sdf\<lparr>child_link := None\<rparr>) store_parent_only))
          [OpStep store_with_child, OpDetach, OpStep store_with_child],
        store_with_child, [])"
proof -
  have h1: "parent_link (example_sdf\<lparr>child_link := None\<rparr>) = None
      \<or> child_model (example_sdf\<lparr>child_link := None\<rparr>) = None
      \<or> child_link (example_sdf\<lparr>child_link := None\<rparr>) = None"
    by simp
  have h2: "\<not> list_ex isConfigure [OpStep store_with_child, OpDetach, OpStep store_with_child]"
    by simp
  from configuration_completeness [OF h1 h2, of firstTopic 1 store_parent_only store_with_child]
    h1 h2
  show ?thesis by blast
qed

subsection \<open>C3\<close>

text \<open>
  C3, retry until found. Take a validly configured, not yet initialized system and a
  sequence of ticks whose stores resolve both the child model and the child link for
  the first time at tick \<open>n\<close> (counted from 0). Before each of the ticks \<open>0\<close> to \<open>n\<close>
  the guard of the discovery block holds, so discovery runs on every one of them
  and \<open>initialized\<close> is still false; after tick \<open>n\<close> and after every later tick
  \<open>initialized\<close> is true. There is no bound on \<open>n\<close>.
\<close>

theorem retry_until_found:
  assumes "validConfig s" and "\<not> initialized s"
    and "n < length ecms"
    and "\<forall>i<n. \<not> resolves s (ecms ! i)"
    and "resolves s (ecms ! n)"
  shows "(\<forall>k\<le>n. discoveryRuns (ticks s (take k ecms)))
       \<and> (\<forall>k. n < k \<and> k \<le> length ecms \<longrightarrow> initialized (ticks s (take k ecms)))"
proof (intro conjI allI impI)
  fix k assume "k \<le> n"
  have "\<not> (\<exists>e \<in> set (take k ecms). resolves s e)"
  proof
    assume "\<exists>e \<in> set (take k ecms). resolves s e"
    then obtain e where "e \<in> set (take k ecms)" and r: "resolves s e" by blast
    then obtain i where "i < length (take k ecms)" and "take k ecms ! i = e"
      by (auto simp add: in_set_conv_nth)
    with \<open>k \<le> n\<close> have "i < n" and "ecms ! i = e" by auto
    with assms(4) r show False by blast
  qed
  with assms(1,2) show "discoveryRuns (ticks s (take k ecms))"
    by (simp add: discoveryRuns_def ticks_validConfig ticks_initialized_iff)
next
  fix k assume "n < k \<and> k \<le> length ecms"
  with assms(3) have "ecms ! n \<in> set (take k ecms)"
    by (auto simp add: in_set_conv_nth intro!: exI [of _ n])
  with assms(1,2,5) show "initialized (ticks s (take k ecms))"
    by (auto simp add: ticks_initialized_iff)
qed

theorem retry_until_found_witness:
  "validConfig configured_state \<and> \<not> initialized configured_state
   \<and> 2 < length [store_parent_only, store_parent_only, store_with_child]
   \<and> \<not> resolves configured_state
          ([store_parent_only, store_parent_only, store_with_child] ! 0)
   \<and> \<not> resolves configured_state
          ([store_parent_only, store_parent_only, store_with_child] ! 1)
   \<and> resolves configured_state ([store_parent_only, store_parent_only, store_with_child] ! 2)
   \<and> discoveryRuns (ticks configured_state
                       (take 2 [store_parent_only, store_parent_only, store_with_child]))
   \<and> initialized (ticks configured_state
                     (take 3 [store_parent_only, store_parent_only, store_with_child]))"
proof -
  let ?ecms = "[store_parent_only, store_parent_only, store_with_child]"
  have h1: "validConfig configured_state" by code_simp
  have h2: "\<not> initialized configured_state" by code_simp
  have h3: "2 < length ?ecms" by simp
  have r0: "\<not> resolves configured_state store_parent_only" by code_simp
  have h4: "\<forall>i<2. \<not> resolves configured_state (?ecms ! i)"
    using r0 by (auto dest!: less_2_cases)
  have r2: "resolves configured_state store_with_child" by code_simp
  then have h5: "resolves configured_state (?ecms ! 2)" by simp
  note t = retry_until_found [OF h1 h2 h3 h4 h5]
  from t have a: "discoveryRuns (ticks configured_state (take 2 ?ecms))"
    by blast
  from t [THEN conjunct2, THEN spec, of 3]
  have b: "initialized (ticks configured_state (take 3 ?ecms))"
    by simp
  from r0 have r1: "\<not> resolves configured_state (?ecms ! 0)"
    and r1': "\<not> resolves configured_state (?ecms ! 1)"
    by simp_all
  from h1 h2 h3 r1 r1' h5 a b show ?thesis by blast
qed

subsection \<open>C4\<close>

text \<open>
  C4, the invariant of the joint entity. After any sequence of \<open>Configure\<close>, step and
  detach-command operations from the initial state, the joint entity is non-null
  if and only if \<open>initialized\<close> is true and no step of the sequence has processed a
  detach.
\<close>

theorem joint_iff_attached:
  "(detachableJointEntity (run vt initial_state xs) \<noteq> kNullEntity) =
     (initialized (run vt initial_state xs) \<and> \<not> detachDone vt initial_state xs)"
  using run_invariant [of initial_state False vt xs]
  by (simp add: initial_state_def)

theorem joint_iff_attached_witness:
  "detachableJointEntity
     (run firstTopic initial_state
        [OpConfigure 1 example_sdf store_parent_only, OpStep store_parent_only,
         OpStep store_with_child]) = 5
   \<and> initialized
     (run firstTopic initial_state
        [OpConfigure 1 example_sdf store_parent_only, OpStep store_parent_only,
         OpStep store_with_child])
   \<and> \<not> detachDone firstTopic initial_state
        [OpConfigure 1 example_sdf store_parent_only, OpStep store_parent_only,
         OpStep store_with_child]"
proof -
  let ?xs = "[OpConfigure 1 example_sdf store_parent_only, OpStep store_parent_only,
              OpStep store_with_child]"
  have v: "detachableJointEntity (run firstTopic initial_state ?xs) = 5" by code_simp
  then have "detachableJointEntity (run firstTopic initial_state ?xs) \<noteq> kNullEntity"
    by (simp add: kNullEntity_def)
  with joint_iff_attached [of firstTopic ?xs] v show ?thesis by blast
qed

subsection \<open>C5\<close>

text \<open>
  C5, idempotent initialization. In a state with \<open>initialized\<close> true and
  \<open>detachRequested\<close> false, any number of steps leave the state as it is, and each
  step returns the store unchanged and prints nothing.
\<close>

theorem idempotent_initialization:
  assumes "initialized s" and "\<not> detachRequested s"
  shows "ticks s ecms = s \<and> PreUpdate (ticks s ecms) ecm = (s, ecm, [])"
proof -
  have "ticks s ecms = s"
    using assms by (induction ecms) (simp_all add: PreUpdate_idle)
  with assms show ?thesis by (simp add: PreUpdate_idle)
qed

theorem idempotent_initialization_witness:
  "initialized attached_state \<and> \<not> detachRequested attached_state
   \<and> ticks attached_state [store_with_child, store_parent_only] = attached_state
   \<and> PreUpdate (ticks attached_state [store_with_child, store_parent_only]) store_with_child =
       (attached_state, store_with_child, [])"
proof -
  have h1: "initialized attached_state" by code_simp
  have h2: "\<not> detachRequested attached_state" by code_simp
  from idempotent_initialization [OF h1 h2] h1 h2 show ?thesis by blast
qed

subsection \<open>C6\<close>

text \<open>
  C6, single use. Once a step has processed a detach, then after any further sequence
  of operations \<open>initialized\<close> is still true, the guard of the discovery block is
  false, and a step returns the state and the store unchanged: discovery is not run
  again and no new joint entity is created.
\<close>

theorem single_use:
  assumes "detachProcessed s ecm0"
  shows "initialized (run vt (fst (PreUpdate s ecm0)) xs)
       \<and> \<not> discoveryRuns (run vt (fst (PreUpdate s ecm0)) xs)
       \<and> PreUpdate (run vt (fst (PreUpdate s ecm0)) xs) ecm =
           (run vt (fst (PreUpdate s ecm0)) xs, ecm, [])"
proof -
  from detachProcessed_spent [OF assms]
  have "initialized (run vt (fst (PreUpdate s ecm0)) xs)
      \<and> detachableJointEntity (run vt (fst (PreUpdate s ecm0)) xs) = kNullEntity"
    by (intro run_spent) simp_all
  then show ?thesis
    by (simp add: discoveryRuns_def PreUpdate_spent)
qed

theorem single_use_witness:
  "detachProcessed (OnDetachRequest attached_state) store_with_child
   \<and> \<not> discoveryRuns
        (run firstTopic (fst (PreUpdate (OnDetachRequest attached_state) store_with_child))
           [OpDetach, OpStep store_with_child, OpStep store_parent_only])
   \<and> initialized
        (run firstTopic (fst (PreUpdate (OnDetachRequest attached_state) store_with_child))
           [OpDetach, OpStep store_with_child, OpStep store_parent_only])
   \<and> PreUpdate
        (run firstTopic (fst (PreUpdate (OnDetachRequest attached_state) store_with_child))
           [OpDetach, OpStep store_with_child, OpStep store_parent_only])
        store_with_child =
       (run firstTopic (fst (PreUpdate (OnDetachRequest attached_state) store_with_child))
          [OpDetach, OpStep store_with_child, OpStep store_parent_only],
        store_with_child, [])"
proof -
  have h: "detachProcessed (OnDetachRequest attached_state) store_with_child" by code_simp
  from single_use [OF h] h show ?thesis by blast
qed

subsection \<open>C7\<close>

text \<open>
  C7, the warnings of discovery. On a step that runs discovery, the warning that the
  child model could not be found is printed if and only if the child model does not
  resolve and \<open>suppressChildWarning\<close> is false; the warning that the child link could
  not be found is printed if and only if the child model resolves and the child
  link does not, whatever \<open>suppressChildWarning\<close> is.
\<close>

theorem child_warnings:
  assumes "discoveryRuns s"
  shows "((Warn, ''Child Model '' @ childModelName s @ '' could not be found.'' @ endl)
            \<in> set (snd (snd (PreUpdate s ecm))))
         = (childModelEntity s ecm = kNullEntity \<and> \<not> suppressChildWarning s)
       \<and> ((Warn, ''Child Link '' @ childLinkName s @ '' could not be found.'' @ endl)
            \<in> set (snd (snd (PreUpdate s ecm))))
         = (childModelEntity s ecm \<noteq> kNullEntity
            \<and> findChildLink s ecm (childModelEntity s ecm) = kNullEntity)"
  using assms
  by (auto simp add: discoveryRuns_def PreUpdate_def discover_def Let_def split: prod.splits)

theorem child_warnings_witness:
  "discoveryRuns configured_state
   \<and> (Warn, ''Child Model '' @ childModelName configured_state @ '' could not be found.'' @ endl)
        \<in> set (snd (snd (PreUpdate configured_state store_parent_only)))
   \<and> childModelEntity configured_state store_parent_only = kNullEntity
   \<and> \<not> suppressChildWarning configured_state"
proof -
  have h: "discoveryRuns configured_state" by code_simp
  have a: "childModelEntity configured_state store_parent_only = kNullEntity" by code_simp
  have b: "\<not> suppressChildWarning configured_state" by code_simp
  from child_warnings [OF h, of store_parent_only] h a b show ?thesis by blast
qed

subsection \<open>C8\<close>

text \<open>
  C8, the event channels. The header declares eight channels, with the callback
  signatures pause (bool), stop (none), load-plugins (entity, declarative element),
  render (none), enable-sensors (bool), remove-from-store (unsigned integer),
  add-to-store (unsigned integer, name, unsigned integer) and sync-store-to-gui
  (store, step info). The eight are pairwise distinct types, also where the
  signatures coincide: pause and enable-sensors, stop and render.
\<close>

theorem event_channels:
  "length events = 8
   \<and> distinct events
   \<and> signature Pause = [Arg_bool]
   \<and> signature Stop = []
   \<and> signature LoadPlugins = [Arg_Entity, Arg_sdf_ElementPtr]
   \<and> signature Render = []
   \<and> signature EnableSensors = [Arg_bool]
   \<and> signature RemoveFromECM = [Arg_unsigned_int]
   \<and> signature AddToECM = [Arg_unsigned_int, Arg_std_string, Arg_unsigned_int]
   \<and> signature UpdateGUIECM = [Arg_const_EntityComponentManager_ref, Arg_const_UpdateInfo_ref]
   \<and> signature Pause = signature EnableSensors \<and> Pause \<noteq> EnableSensors
   \<and> signature Stop = signature Render \<and> Stop \<noteq> Render"
  by (simp add: events_def Pause_def Stop_def LoadPlugins_def Render_def EnableSensors_def
      RemoveFromECM_def AddToECM_def UpdateGUIECM_def)

subsection \<open>C9\<close>

text \<open>
  C9, the parent link is resolved at configuration time only. When \<open>parent_link\<close>
  names a link that the owning model does not have in the store given to
  \<open>Configure\<close>, \<open>Configure\<close> prints one error and, after any sequence of steps and
  detach commands, whatever the stores of those steps contain, \<open>validConfig\<close> is
  still false, the parent link entity is still null, and a step returns the state
  and the store unchanged.
\<close>

theorem parent_link_eager:
  assumes "parent_link sdf = Some name"
    and "Model_LinkByName entity ecm0 name = kNullEntity"
    and "\<not> list_ex isConfigure xs"
  shows "snd (Configure vt initial_state entity sdf ecm0) =
           [(Err, if Model_Valid entity ecm0
                  then ''Link with name '' @ name @ '' not found in model ''
                       @ Model_Name entity ecm0 @ ''. Make sure the parameter ''
                       @ apos @ ''parent_link'' @ apos @ '' has the ''
                       @ ''correct value. Failed to initialize.'' @ endl
                  else ''DetachableJoint should be attached to a model entity. ''
                       @ ''Failed to initialize.'' @ endl)]
       \<and> \<not> validConfig (run vt (fst (Configure vt initial_state entity sdf ecm0)) xs)
       \<and> parentLinkEntity (run vt (fst (Configure vt initial_state entity sdf ecm0)) xs)
           = kNullEntity
       \<and> PreUpdate (run vt (fst (Configure vt initial_state entity sdf ecm0)) xs) ecm =
           (run vt (fst (Configure vt initial_state entity sdf ecm0)) xs, ecm, [])"
proof -
  let ?c = "fst (Configure vt initial_state entity sdf ecm0)"
  have l: "snd (Configure vt initial_state entity sdf ecm0) =
           [(Err, if Model_Valid entity ecm0
                  then ''Link with name '' @ name @ '' not found in model ''
                       @ Model_Name entity ecm0 @ ''. Make sure the parameter ''
                       @ apos @ ''parent_link'' @ apos @ '' has the ''
                       @ ''correct value. Failed to initialize.'' @ endl
                  else ''DetachableJoint should be attached to a model entity. ''
                       @ ''Failed to initialize.'' @ endl)]"
    using assms(1,2) by (simp add: Configure_def Let_def)
  have v: "\<not> validConfig ?c" and p: "parentLinkEntity ?c = kNullEntity"
    using assms(1,2) by (simp_all add: Configure_def Let_def initial_state_def)
  have i: "\<not> initialized ?c"
    by (simp add: Configure_frame initial_state_def)
  from run_inert [OF v i assms(3), of vt] l p show ?thesis
    by (simp add: PreUpdate_inert)
qed

theorem parent_link_eager_witness:
  "parent_link (example_sdf\<lparr>parent_link := Some ''wrist''\<rparr>) = Some ''wrist''
   \<and> Model_LinkByName 1 store_parent_only ''wrist'' = kNullEntity
   \<and> \<not> list_ex isConfigure [OpStep store_with_child, OpDetach, OpStep store_with_child]
   \<and> \<not> validConfig
        (run firstTopic
           (fst (Configure firstTopic initial_state 1
                   (example_sdf\<lparr>parent_link := Some ''wrist''\<rparr>) store_parent_only))
           [OpStep store_with_child, OpDetach, OpStep store_with_child])
   \<and> parentLinkEntity
        (run firstTopic
           (fst (Configure firstTopic initial_state 1
                   (example_sdf\<lparr>parent_link := Some ''wrist''\<rparr>) store_parent_only))
           [OpStep store_with_child, OpDetach, OpStep store_with_child]) = kNullEntity"
proof -
  have h1: "parent_link (example_sdf\<lparr>parent_link := Some ''wrist''\<rparr>) = Some ''wrist''"
    by simp
  have h2: "Model_LinkByName 1 store_parent_only ''wrist'' = kNullEntity" by code_simp
  have h3: "\<not> list_ex isConfigure [OpStep store_with_child, OpDetach, OpStep store_with_child]"
    by simp
  from parent_link_eager [OF h1 h2 h3, of firstTopic store_with_child] h1 h2 h3
  show ?thesis by blast
qed

end
